theory Spec2Isabelle
  imports Main "HOL-Library.AList"
begin

section \<open>Model kind names and the derived predicates\<close>

text \<open>
  \<^verbatim>\<open>ModelKindName(str, ModelKindMixin, Enum)\<close>: the closed set of seven tags. Every member
  is a string whose value is the member's name.
\<close>

datatype ModelKindName =
    INCREMENTAL_BY_TIME_RANGE
  | INCREMENTAL_BY_UNIQUE_KEY
  | FULL
  | VIEW
  | EMBEDDED
  | SEED
  | EXTERNAL

fun value_of :: "ModelKindName \<Rightarrow> string" where
  "value_of INCREMENTAL_BY_TIME_RANGE = ''INCREMENTAL_BY_TIME_RANGE''"
| "value_of INCREMENTAL_BY_UNIQUE_KEY = ''INCREMENTAL_BY_UNIQUE_KEY''"
| "value_of FULL = ''FULL''"
| "value_of VIEW = ''VIEW''"
| "value_of EMBEDDED = ''EMBEDDED''"
| "value_of SEED = ''SEED''"
| "value_of EXTERNAL = ''EXTERNAL''"

definition members :: "ModelKindName list" where
  "members = [INCREMENTAL_BY_TIME_RANGE, INCREMENTAL_BY_UNIQUE_KEY, FULL, VIEW, EMBEDDED,
     SEED, EXTERNAL]"

text \<open>
  \<^verbatim>\<open>ModelKindName(text)\<close>, the enum's lookup by value: the member whose value is exactly
  the text (the lookup is case sensitive), \<open>None\<close> where Python raises \<^verbatim>\<open>ValueError\<close>.
\<close>

definition ModelKindName_of :: "string \<Rightarrow> ModelKindName option" where
  "ModelKindName_of s = find (\<lambda>n. value_of n = s) members"

text \<open>
  The properties of \<^verbatim>\<open>ModelKindMixin\<close>, as functions of what \<^verbatim>\<open>self.model_kind_name\<close>
  returns. For a \<^verbatim>\<open>ModelKindName\<close> that is the member itself.
\<close>

definition is_incremental_by_time_range :: "ModelKindName \<Rightarrow> bool" where
  "is_incremental_by_time_range n = (n = INCREMENTAL_BY_TIME_RANGE)"

definition is_incremental_by_unique_key :: "ModelKindName \<Rightarrow> bool" where
  "is_incremental_by_unique_key n = (n = INCREMENTAL_BY_UNIQUE_KEY)"

definition is_full :: "ModelKindName \<Rightarrow> bool" where
  "is_full n = (n = FULL)"

definition is_view :: "ModelKindName \<Rightarrow> bool" where
  "is_view n = (n = VIEW)"

definition is_embedded :: "ModelKindName \<Rightarrow> bool" where
  "is_embedded n = (n = EMBEDDED)"

definition is_seed :: "ModelKindName \<Rightarrow> bool" where
  "is_seed n = (n = SEED)"

definition is_external :: "ModelKindName \<Rightarrow> bool" where
  "is_external n = (n = EXTERNAL)"

definition is_symbolic :: "ModelKindName \<Rightarrow> bool" where
  "is_symbolic n = (n \<in> set [EMBEDDED, EXTERNAL])"

definition is_materialized :: "ModelKindName \<Rightarrow> bool" where
  "is_materialized n = (\<not> (is_symbolic n \<or> is_view n))"

definition only_latest :: "ModelKindName \<Rightarrow> bool" where
  "only_latest n = (is_view n \<or> is_full n)"

section \<open>The typed records\<close>

text \<open>
  \<^verbatim>\<open>TimeColumn\<close> and the \<^verbatim>\<open>ModelKind\<close> family. A subclass fixes its \<^verbatim>\<open>name\<close> field to one
  literal tag, so the field is a function of the constructor; the other fields are stored
  in the order in which the record base collects them (base classes first).
\<close>

datatype TimeColumn = TimeColumn (column: string) (format: "string option")

datatype ModelKind =
    ModelKind ModelKindName
  | IncrementalByTimeRangeKind (batch_size: "int option") (lookback: "int option")
      (time_column: TimeColumn)
  | IncrementalByUniqueKeyKind (batch_size: "int option") (lookback: "int option")
      (unique_key: "string list")
  | ViewKind (materialized: bool)
  | SeedKind (path: string) (seed_batch_size: int)

fun name :: "ModelKind \<Rightarrow> ModelKindName" where
  "name (ModelKind n) = n"
| "name (IncrementalByTimeRangeKind _ _ _) = INCREMENTAL_BY_TIME_RANGE"
| "name (IncrementalByUniqueKeyKind _ _ _) = INCREMENTAL_BY_UNIQUE_KEY"
| "name (ViewKind _) = VIEW"
| "name (SeedKind _ _) = SEED"

text \<open>\<^verbatim>\<open>ModelKind.model_kind_name\<close> returns \<^verbatim>\<open>self.name\<close>.\<close>

definition model_kind_name :: "ModelKind \<Rightarrow> ModelKindName" where
  "model_kind_name self = name self"

section \<open>Syntax tree nodes and Python values\<close>

text \<open>
  The nodes of the SQL expression library that the validators inspect. Every node keeps its
  arguments by name; the ones read here are \<^verbatim>\<open>this\<close>, \<^verbatim>\<open>expressions\<close>, \<^verbatim>\<open>value\<close> and
  \<^verbatim>\<open>is_string\<close>. \<open>Column\<close> holds \<^verbatim>\<open>this\<close> and its qualifiers, \<open>Property\<close> holds \<^verbatim>\<open>this\<close>
  (a string or a node) and \<^verbatim>\<open>value\<close>, \<open>ModelKindE\<close> is the model-kind node of the dialect
  module, with \<^verbatim>\<open>this\<close> and \<^verbatim>\<open>expressions\<close> (empty when absent).
\<close>

datatype expr =
    Identifier string
  | Literal string bool
  | Var string
  | Boolean bool
  | Column expr "expr list"
  | Tuple "expr list"
  | Property "string + expr" "expr option"
  | ModelKindE string "expr list"

text \<open>
  The Python values that reach the validators. \<open>PStr\<close> is a plain \<^verbatim>\<open>str\<close>; \<open>PName\<close> is a
  \<^verbatim>\<open>ModelKindName\<close> member, which is a \<^verbatim>\<open>str\<close> too (it compares equal to its value, iterates
  and converts like it) but prints as \<^verbatim>\<open>ModelKindName.<member>\<close>. A \<open>PDict\<close> lists its entries
  in insertion order, with distinct keys. Integers are unbounded, and so are their decimal
  texts (the interpreter's optional limit on the digits of a conversion is off).
\<close>

datatype pyval =
    PNone
  | PBool bool
  | PInt int
  | PStr string
  | PName ModelKindName
  | PList "pyval list"
  | PDict "(string \<times> pyval) list"
  | PExp expr
  | PKind ModelKind
  | PTimeColumn TimeColumn

type_synonym kwargs = "(string \<times> pyval) list"

text \<open>\<^verbatim>\<open>Expression.text(key)\<close> on an argument that holds a node.\<close>

fun text_of :: "expr \<Rightarrow> string" where
  "text_of (Identifier s) = s"
| "text_of (Literal s _) = s"
| "text_of (Var s) = s"
| "text_of _ = ''''"

text \<open>\<^verbatim>\<open>Expression.name\<close> is \<^verbatim>\<open>self.text("this")\<close>: a string argument as it is, the inner
  text of an identifier, literal or variable node, and the empty string otherwise.\<close>

fun expr_name :: "expr \<Rightarrow> string" where
  "expr_name (Identifier s) = s"
| "expr_name (Literal s _) = s"
| "expr_name (Var s) = s"
| "expr_name (Boolean _) = ''''"
| "expr_name (Column t _) = text_of t"
| "expr_name (Tuple _) = ''''"
| "expr_name (Property (Inl s) _) = s"
| "expr_name (Property (Inr t) _) = text_of t"
| "expr_name (ModelKindE s _) = s"

text \<open>\<^verbatim>\<open>Expression.this\<close>, the argument itself.\<close>

fun expr_this :: "expr \<Rightarrow> pyval" where
  "expr_this (Identifier s) = PStr s"
| "expr_this (Literal s _) = PStr s"
| "expr_this (Var s) = PStr s"
| "expr_this (Boolean b) = PBool b"
| "expr_this (Column t _) = PExp t"
| "expr_this (Tuple _) = PNone"
| "expr_this (Property (Inl s) _) = PStr s"
| "expr_this (Property (Inr t) _) = PExp t"
| "expr_this (ModelKindE s _) = PStr s"

text \<open>\<^verbatim>\<open>prop.args.get("value")\<close>: only a property node has the argument.\<close>

fun expr_value :: "expr \<Rightarrow> pyval" where
  "expr_value (Property _ (Some v)) = PExp v"
| "expr_value _ = PNone"

text \<open>Truth value of a Python object: the empty and zero values are false, nodes and
  records are true.\<close>

fun py_bool :: "pyval \<Rightarrow> bool" where
  "py_bool PNone = False"
| "py_bool (PBool b) = b"
| "py_bool (PInt n) = (n \<noteq> 0)"
| "py_bool (PStr s) = (s \<noteq> [])"
| "py_bool (PName n) = (value_of n \<noteq> [])"
| "py_bool (PList xs) = (xs \<noteq> [])"
| "py_bool (PDict d) = (d \<noteq> [])"
| "py_bool (PExp _) = True"
| "py_bool (PKind _) = True"
| "py_bool (PTimeColumn _) = True"

section \<open>Strings and integers of the host language\<close>

text \<open>A text all of whose characters are ASCII.\<close>

definition ascii :: "string \<Rightarrow> bool" where
  "ascii s = list_all (\<lambda>c. (of_char c :: nat) < 128) s"

text \<open>
  \<^verbatim>\<open>str.upper\<close>. On an ASCII text it maps the letters a to z to A to Z and leaves every
  other character as it is. On a text with other characters the result comes from the
  Unicode tables of the interpreter; it is some string, left unspecified here.
\<close>

definition upper_char :: "char \<Rightarrow> char" where
  "upper_char c = (let n = (of_char c :: nat) in if 97 \<le> n \<and> n \<le> 122 then char_of (n - 32) else c)"

fun unicode_upper :: "string \<Rightarrow> string" where
  "unicode_upper [] = []"

definition upper :: "string \<Rightarrow> string" where
  "upper s = (if ascii s then map upper_char s else unicode_upper s)"

text \<open>\<^verbatim>\<open>str(n)\<close> of an integer: its decimal digits, with a minus sign when negative.\<close>

function dec :: "nat \<Rightarrow> string" where
  "dec n = (if n < 10 then [char_of (48 + n)] else dec (n div 10) @ [char_of (48 + n mod 10)])"
  by pat_completeness auto
termination
  by (relation "measure id") auto

definition str_int :: "int \<Rightarrow> string" where
  "str_int n = (if n < 0 then CHR ''-'' # dec (nat (- n)) else dec (nat n))"

text \<open>
  \<^verbatim>\<open>int(text)\<close> in base ten, \<open>None\<close> where Python raises \<^verbatim>\<open>ValueError\<close>. On an ASCII text
  the surrounding whitespace (space, tab, line feed, vertical tab, form feed, carriage
  return) is dropped, one sign is allowed, and the digits may be grouped by single
  underscores. On a text with other characters the answer depends on the Unicode tables of
  the interpreter (further digits and spaces); it is left unspecified here.
\<close>

definition is_digit :: "char \<Rightarrow> bool" where
  "is_digit c = (let n = (of_char c :: nat) in 48 \<le> n \<and> n \<le> 57)"

definition digit_val :: "char \<Rightarrow> nat" where
  "digit_val c = (of_char c :: nat) - 48"

definition is_space :: "char \<Rightarrow> bool" where
  "is_space c = (let n = (of_char c :: nat) in (9 \<le> n \<and> n \<le> 13) \<or> n = 32)"

definition strip :: "string \<Rightarrow> string" where
  "strip s = rev (dropWhile is_space (rev (dropWhile is_space s)))"

fun digits_val :: "nat \<Rightarrow> string \<Rightarrow> nat option" where
  "digits_val acc [] = Some acc"
| "digits_val acc (c # cs) =
     (if is_digit c then digits_val (10 * acc + digit_val c) cs
      else if c = CHR ''_'' then
        (case cs of [] \<Rightarrow> None | d # _ \<Rightarrow> if is_digit d then digits_val acc cs else None)
      else None)"

definition py_digits :: "string \<Rightarrow> nat option" where
  "py_digits s = (case s of [] \<Rightarrow> None | c # _ \<Rightarrow> if is_digit c then digits_val 0 s else None)"

fun unicode_int :: "string \<Rightarrow> int option" where
  "unicode_int [] = None"

definition ascii_int :: "string \<Rightarrow> int option" where
  "ascii_int s =
     (case strip s of
        [] \<Rightarrow> None
      | c # r \<Rightarrow>
          if c = CHR ''-'' then map_option (\<lambda>n. - int n) (py_digits r)
          else if c = CHR ''+'' then map_option int (py_digits r)
          else map_option int (py_digits (c # r)))"

definition parse_int :: "string \<Rightarrow> int option" where
  "parse_int s = (if ascii s then ascii_int s else unicode_int s)"

text \<open>
  \<^verbatim>\<open>str(v)\<close>. A \<^verbatim>\<open>ModelKindName\<close> member prints as the class name, a dot and the member's
  name. The text of a list, a mapping, a node or a record comes from the printers
  of the language and of the expression library; it is some string, left unspecified here.
\<close>

fun py_str :: "pyval \<Rightarrow> string" where
  "py_str (PStr s) = s"
| "py_str (PName n) = ''ModelKindName.'' @ value_of n"
| "py_str (PInt n) = str_int n"
| "py_str (PBool b) = (if b then ''True'' else ''False'')"
| "py_str PNone = ''None''"

section \<open>Errors and the validated record base\<close>

text \<open>
  What the code raises: \<^verbatim>\<open>ConfigError\<close> with its message, \<^verbatim>\<open>ValueError\<close> (raised with a
  message, by \<^verbatim>\<open>int()\<close> on a text that is no integer, or by the enum lookup on a text that
  is no member), \<^verbatim>\<open>TypeError\<close>, and the validation error of the record base with its
  lines. A line is a missing required field, a key that is no field (the base is
  configured with \<^verbatim>\<open>extra="forbid"\<close>), a value of the wrong type, or a \<^verbatim>\<open>ValueError\<close> caught
  while validating the field at that place (the empty place is the whole record).
\<close>

datatype value_error =
    Message string
  | InvalidIntLiteral string
  | InvalidEnumValue string

datatype line_error =
    Missing string
  | ExtraForbidden string
  | WrongType string
  | ValueErrorIn string value_error

datatype error =
    ConfigError string
  | ValueError value_error
  | TypeError
  | ValidationError "line_error list"

text \<open>
  Validating one field gives its value, or lines for the validation error, or an exception
  that leaves the constructor at once. The base catches a \<^verbatim>\<open>ValueError\<close> raised by a
  validator (a validation error raised inside is one, and hands over its lines); any other
  exception, \<^verbatim>\<open>ConfigError\<close> among them, propagates unchanged.
\<close>

datatype 'a outcome = Valid 'a | Invalid "line_error list" | Raised error

fun caught :: "string \<Rightarrow> error \<Rightarrow> 'a outcome" where
  "caught loc (ValueError e) = Invalid [ValueErrorIn loc e]"
| "caught loc (ValidationError ls) = Invalid ls"
| "caught loc e = Raised e"

definition lookup :: "kwargs \<Rightarrow> string \<Rightarrow> pyval option \<Rightarrow> pyval option" where
  "lookup kw k dflt = (case map_of kw k of Some v \<Rightarrow> Some v | None \<Rightarrow> dflt)"

text \<open>
  One field: the given value or the default (defaults are validated too,
  \<^verbatim>\<open>validate_default=True\<close>), through the field's \<^verbatim>\<open>mode="before"\<close> validator and then the
  check of the declared type.
\<close>

definition field ::
  "string \<Rightarrow> pyval option \<Rightarrow> (pyval \<Rightarrow> error + pyval) \<Rightarrow> (string \<Rightarrow> pyval \<Rightarrow> 'a outcome) \<Rightarrow> 'a outcome" where
  "field loc raw validator core =
     (case raw of
        None \<Rightarrow> Invalid [Missing loc]
      | Some v \<Rightarrow> (case validator v of Inl e \<Rightarrow> caught loc e | Inr w \<Rightarrow> core loc w))"

text \<open>Fields are validated in order; lines accumulate, an exception ends the run.\<close>

fun both :: "'a outcome \<Rightarrow> 'b outcome \<Rightarrow> ('a \<times> 'b) outcome" where
  "both (Raised e) _ = Raised e"
| "both _ (Raised e) = Raised e"
| "both (Valid a) (Valid b) = Valid (a, b)"
| "both (Valid a) (Invalid m) = Invalid m"
| "both (Invalid l) (Valid b) = Invalid l"
| "both (Invalid l) (Invalid m) = Invalid (l @ m)"

definition extras :: "kwargs \<Rightarrow> string list \<Rightarrow> line_error list" where
  "extras kw fields = map (\<lambda>(k, _). ExtraForbidden k) (filter (\<lambda>(k, _). k \<notin> set fields) kw)"

fun finish :: "'a outcome \<Rightarrow> line_error list \<Rightarrow> error + 'a" where
  "finish (Raised e) ex = Inl e"
| "finish (Invalid ls) ex = Inl (ValidationError (ls @ ex))"
| "finish (Valid a) ex = (if ex = [] then Inr a else Inl (ValidationError ex))"

text \<open>A \<^verbatim>\<open>model_validator(mode="after")\<close> runs on the built record; its \<^verbatim>\<open>ValueError\<close>
  becomes a validation error of the whole record.\<close>

fun after :: "error + 'a \<Rightarrow> error + 'a" where
  "after (Inl (ValueError e)) = Inl (ValidationError [ValueErrorIn [] e])"
| "after r = r"

definition no_validator :: "pyval \<Rightarrow> error + pyval" where
  "no_validator v = Inr v"

text \<open>The checks of the declared types, on the values the validators hand over.\<close>

fun core_str :: "string \<Rightarrow> pyval \<Rightarrow> string outcome" where
  "core_str loc (PStr s) = Valid s"
| "core_str loc (PName n) = Valid (value_of n)"
| "core_str loc _ = Invalid [WrongType loc]"

fun core_optional_str :: "string \<Rightarrow> pyval \<Rightarrow> string option outcome" where
  "core_optional_str loc PNone = Valid None"
| "core_optional_str loc (PStr s) = Valid (Some s)"
| "core_optional_str loc (PName n) = Valid (Some (value_of n))"
| "core_optional_str loc _ = Invalid [WrongType loc]"

fun core_int :: "string \<Rightarrow> pyval \<Rightarrow> int outcome" where
  "core_int loc (PInt n) = Valid n"
| "core_int loc (PBool b) = Valid (if b then 1 else 0)"
| "core_int loc _ = Invalid [WrongType loc]"

fun core_optional_int :: "string \<Rightarrow> pyval \<Rightarrow> int option outcome" where
  "core_optional_int loc PNone = Valid None"
| "core_optional_int loc (PInt n) = Valid (Some n)"
| "core_optional_int loc (PBool b) = Valid (Some (if b then 1 else 0))"
| "core_optional_int loc _ = Invalid [WrongType loc]"

fun core_bool :: "string \<Rightarrow> pyval \<Rightarrow> bool outcome" where
  "core_bool loc (PBool b) = Valid b"
| "core_bool loc _ = Invalid [WrongType loc]"

fun is_str :: "pyval \<Rightarrow> bool" where
  "is_str (PStr _) = True"
| "is_str (PName _) = True"
| "is_str _ = False"

text \<open>The text of a value that is a \<^verbatim>\<open>str\<close>.\<close>

fun str_value :: "pyval \<Rightarrow> string" where
  "str_value (PStr s) = s"
| "str_value (PName n) = value_of n"

fun core_list_str :: "string \<Rightarrow> pyval \<Rightarrow> string list outcome" where
  "core_list_str loc (PList xs) =
     (if list_all is_str xs then Valid (map str_value xs)
      else Invalid (map (\<lambda>_. WrongType loc) (filter (\<lambda>x. \<not> is_str x) xs)))"
| "core_list_str loc _ = Invalid [WrongType loc]"

fun core_name :: "string \<Rightarrow> pyval \<Rightarrow> ModelKindName outcome" where
  "core_name loc (PName n) = Valid n"
| "core_name loc (PStr s) =
     (case ModelKindName_of s of Some n \<Rightarrow> Valid n | None \<Rightarrow> Invalid [WrongType loc])"
| "core_name loc _ = Invalid [WrongType loc]"

fun core_literal :: "ModelKindName \<Rightarrow> string \<Rightarrow> pyval \<Rightarrow> ModelKindName outcome" where
  "core_literal n loc (PName m) = (if m = n then Valid n else Invalid [WrongType loc])"
| "core_literal n loc (PStr s) = (if s = value_of n then Valid n else Invalid [WrongType loc])"
| "core_literal n loc _ = Invalid [WrongType loc]"

section \<open>Time column\<close>

text \<open>\<^verbatim>\<open>TimeColumn._column_validator\<close>: a false value is rejected, anything else is handed on.\<close>

definition column_validator :: "pyval \<Rightarrow> error + pyval" where
  "column_validator v =
     (if \<not> py_bool v then Inl (ConfigError ''Time Column cannot be empty.'') else Inr v)"

text \<open>\<^verbatim>\<open>TimeColumn(**kw)\<close>: \<^verbatim>\<open>column: str\<close> is required, \<^verbatim>\<open>format: Optional[str] = None\<close>.\<close>

definition TimeColumn_init :: "kwargs \<Rightarrow> error + TimeColumn" where
  "TimeColumn_init kw =
     map_sum id (\<lambda>(c, f). TimeColumn c f)
       (finish
          (both (field ''column'' (lookup kw ''column'' None) column_validator core_str)
                (field ''format'' (lookup kw ''format'' (Some PNone)) no_validator core_optional_str))
          (extras kw [''column'', ''format'']))"

text \<open>
  \<^verbatim>\<open>_time_column_validator\<close>, the \<^verbatim>\<open>mode="before"\<close> validator of a \<^verbatim>\<open>time_column\<close> field: a
  tuple node gives its first two elements' names as \<^verbatim>\<open>column\<close> and \<^verbatim>\<open>format\<close>, any other
  node its name as \<^verbatim>\<open>column\<close>, a string itself as \<^verbatim>\<open>column\<close>; any other value is returned
  as it is.
\<close>

fun time_column_validator :: "pyval \<Rightarrow> error + pyval" where
  "time_column_validator (PExp (Tuple es)) =
     map_sum id PTimeColumn
       (TimeColumn_init (zip [''column'', ''format''] (map (\<lambda>e. PStr (expr_name e)) es)))"
| "time_column_validator (PExp e) =
     map_sum id PTimeColumn (TimeColumn_init [(''column'', PStr (expr_name e))])"
| "time_column_validator (PStr s) =
     map_sum id PTimeColumn (TimeColumn_init [(''column'', PStr s)])"
| "time_column_validator (PName n) =
     map_sum id PTimeColumn (TimeColumn_init [(''column'', PName n)])"
| "time_column_validator v = Inr v"

text \<open>The declared type \<^verbatim>\<open>TimeColumn\<close>: a record passes, a mapping is validated into one.\<close>

fun core_time_column :: "string \<Rightarrow> pyval \<Rightarrow> TimeColumn outcome" where
  "core_time_column loc (PTimeColumn tc) = Valid tc"
| "core_time_column loc (PDict d) =
     (case TimeColumn_init d of Inr tc \<Rightarrow> Valid tc | Inl e \<Rightarrow> caught loc e)"
| "core_time_column loc _ = Invalid [WrongType loc]"

section \<open>The validators of the variants\<close>

text \<open>\<^verbatim>\<open>int(v)\<close> on a value that is no node.\<close>

fun py_int :: "pyval \<Rightarrow> error + int" where
  "py_int (PInt n) = Inr n"
| "py_int (PBool b) = Inr (if b then 1 else 0)"
| "py_int (PStr s) =
     (case parse_int s of Some n \<Rightarrow> Inr n | None \<Rightarrow> Inl (ValueError (InvalidIntLiteral s)))"
| "py_int (PName m) =
     (case parse_int (value_of m) of
        Some n \<Rightarrow> Inr n
      | None \<Rightarrow> Inl (ValueError (InvalidIntLiteral (value_of m))))"
| "py_int _ = Inl TypeError"

text \<open>\<^verbatim>\<open>_Incremental._int_validator\<close>, for \<^verbatim>\<open>batch_size\<close> and \<^verbatim>\<open>lookback\<close>.\<close>

definition int_validator :: "string \<Rightarrow> pyval \<Rightarrow> error + pyval" where
  "int_validator field_name v =
     (if v = PNone then Inr PNone
      else
        (case (case v of
                 PExp e \<Rightarrow>
                   (case parse_int (expr_name e) of
                      Some n \<Rightarrow> Inr n
                    | None \<Rightarrow> Inl (ValueError (InvalidIntLiteral (expr_name e))))
               | _ \<Rightarrow> py_int v) of
           Inl e \<Rightarrow> Inl e
         | Inr num \<Rightarrow>
             if num < 0 then
               Inl (ConfigError (''Invalid value '' @ str_int num @ '' for '' @ field_name
                      @ ''. The value should be greater than 0''))
             else Inr (PInt num)))"

text \<open>
  \<^verbatim>\<open>_Incremental._kind_validator\<close>, run after the fields:
  \<^verbatim>\<open>if self.batch_size and self.lookback and self.batch_size < self.lookback\<close>. An absent
  value and zero are both false.
\<close>

definition kind_validator :: "ModelKind \<Rightarrow> error + ModelKind" where
  "kind_validator self =
     (case (batch_size self, lookback self) of
        (Some b, Some l) \<Rightarrow>
          if b \<noteq> 0 \<and> l \<noteq> 0 \<and> b < l then
            Inl (ValueError (Message ''batch_size cannot be less than lookback''))
          else Inr self
      | _ \<Rightarrow> Inr self)"

text \<open>
  Iterating a value, for \<^verbatim>\<open>_parse_unique_key\<close>: a list gives its elements, a string its
  characters, a mapping its keys; \<^verbatim>\<open>None\<close>, a number and a node without
  \<^verbatim>\<open>expressions\<close> are not iterable. What a record or a model-kind node gives is left
  unspecified.
\<close>

fun py_iter :: "pyval \<Rightarrow> error + pyval list" where
  "py_iter (PList xs) = Inr xs"
| "py_iter (PStr s) = Inr (map (\<lambda>c. PStr [c]) s)"
| "py_iter (PName n) = Inr (map (\<lambda>c. PStr [c]) (value_of n))"
| "py_iter (PDict d) = Inr (map (\<lambda>(k, _). PStr k) d)"
| "py_iter PNone = Inl TypeError"
| "py_iter (PBool _) = Inl TypeError"
| "py_iter (PInt _) = Inl TypeError"
| "py_iter (PExp (Literal _ _)) = Inl TypeError"
| "py_iter (PExp (Var _)) = Inl TypeError"
| "py_iter (PExp (Boolean _)) = Inl TypeError"
| "py_iter (PExp (Column _ _)) = Inl TypeError"
| "py_iter (PExp (Property _ _)) = Inl TypeError"

text \<open>\<^verbatim>\<open>IncrementalByUniqueKeyKind._parse_unique_key\<close>.\<close>

fun unique_key_item :: "pyval \<Rightarrow> pyval" where
  "unique_key_item (PExp (Identifier s)) = expr_this (Identifier s)"
| "unique_key_item i = PStr (py_str i)"

fun parse_unique_key :: "pyval \<Rightarrow> error + pyval" where
  "parse_unique_key (PExp (Identifier s)) = Inr (PList [expr_this (Identifier s)])"
| "parse_unique_key (PExp (Tuple es)) = Inr (PList (map expr_this es))"
| "parse_unique_key v = map_sum id (\<lambda>xs. PList (map unique_key_item xs)) (py_iter v)"

text \<open>\<^verbatim>\<open>ViewKind._parse_materialized\<close>.\<close>

fun parse_materialized :: "pyval \<Rightarrow> error + pyval" where
  "parse_materialized (PExp e) = Inr (PBool (py_bool (expr_this e)))"
| "parse_materialized v = Inr (PBool (py_bool v))"

text \<open>
  \<^verbatim>\<open>Literal.is_int\<close>: a literal that is not a string and whose text \<^verbatim>\<open>int()\<close> accepts.
\<close>

fun is_number :: "expr \<Rightarrow> bool" where
  "is_number (Literal _ is_string) = (\<not> is_string)"
| "is_number _ = False"

definition is_int :: "expr \<Rightarrow> bool" where
  "is_int e = (is_number e \<and> parse_int (expr_name e) \<noteq> None)"

text \<open>\<^verbatim>\<open>SeedKind._parse_batch_size\<close>. A Python \<^verbatim>\<open>bool\<close> is an \<^verbatim>\<open>int\<close>.\<close>

definition parse_batch_size :: "pyval \<Rightarrow> error + pyval" where
  "parse_batch_size v0 =
     (let v = (case v0 of
                 PExp e \<Rightarrow>
                   (if is_int e then
                      (case parse_int (expr_name e) of Some n \<Rightarrow> PInt n | None \<Rightarrow> v0)
                    else v0)
               | _ \<Rightarrow> v0)
      in case v of
           PInt n \<Rightarrow>
             if n \<le> 0 then Inl (ValueError (Message ''Seed batch size must be a positive integer''))
             else Inr v
         | PBool b \<Rightarrow>
             if \<not> b then Inl (ValueError (Message ''Seed batch size must be a positive integer''))
             else Inr v
         | _ \<Rightarrow> Inl (ValueError (Message ''Seed batch size must be an integer value'')))"

text \<open>\<^verbatim>\<open>SeedKind._parse_path\<close>.\<close>

fun parse_path :: "pyval \<Rightarrow> error + pyval" where
  "parse_path (PExp (Literal s is_string)) = Inr (expr_this (Literal s is_string))"
| "parse_path v = Inr (PStr (py_str v))"

section \<open>Constructing the variants\<close>

text \<open>
  The constructors, \<^verbatim>\<open>klass(**kw)\<close>. Fields are validated in the order the record base
  collects them, then keys that are no field are rejected, then the \<^verbatim>\<open>after\<close> validator
  runs.
\<close>

definition ModelKind_init :: "kwargs \<Rightarrow> error + ModelKind" where
  "ModelKind_init kw =
     map_sum id ModelKind
       (finish (field ''name'' (lookup kw ''name'' None) no_validator core_name)
          (extras kw [''name'']))"

definition IncrementalByTimeRangeKind_init :: "kwargs \<Rightarrow> error + ModelKind" where
  "IncrementalByTimeRangeKind_init kw =
     after
       (case finish
               (both (field ''name''
                        (lookup kw ''name'' (Some (PName INCREMENTAL_BY_TIME_RANGE)))
                        no_validator (core_literal INCREMENTAL_BY_TIME_RANGE))
                 (both (field ''batch_size'' (lookup kw ''batch_size'' (Some PNone))
                          (int_validator ''batch_size'') core_optional_int)
                   (both (field ''lookback'' (lookup kw ''lookback'' (Some PNone))
                            (int_validator ''lookback'') core_optional_int)
                         (field ''time_column'' (lookup kw ''time_column'' None)
                            time_column_validator core_time_column))))
               (extras kw [''name'', ''batch_size'', ''lookback'', ''time_column'']) of
          Inl e \<Rightarrow> Inl e
        | Inr (n, b, l, tc) \<Rightarrow> kind_validator (IncrementalByTimeRangeKind b l tc))"

definition IncrementalByUniqueKeyKind_init :: "kwargs \<Rightarrow> error + ModelKind" where
  "IncrementalByUniqueKeyKind_init kw =
     after
       (case finish
               (both (field ''name''
                        (lookup kw ''name'' (Some (PName INCREMENTAL_BY_UNIQUE_KEY)))
                        no_validator (core_literal INCREMENTAL_BY_UNIQUE_KEY))
                 (both (field ''batch_size'' (lookup kw ''batch_size'' (Some PNone))
                          (int_validator ''batch_size'') core_optional_int)
                   (both (field ''lookback'' (lookup kw ''lookback'' (Some PNone))
                            (int_validator ''lookback'') core_optional_int)
                         (field ''unique_key'' (lookup kw ''unique_key'' None)
                            parse_unique_key core_list_str))))
               (extras kw [''name'', ''batch_size'', ''lookback'', ''unique_key'']) of
          Inl e \<Rightarrow> Inl e
        | Inr (n, b, l, ks) \<Rightarrow> kind_validator (IncrementalByUniqueKeyKind b l ks))"

definition ViewKind_init :: "kwargs \<Rightarrow> error + ModelKind" where
  "ViewKind_init kw =
     map_sum id (\<lambda>(n, m). ViewKind m)
       (finish
          (both (field ''name'' (lookup kw ''name'' (Some (PName VIEW)))
                   no_validator (core_literal VIEW))
                (field ''materialized'' (lookup kw ''materialized'' (Some (PBool False)))
                   parse_materialized core_bool))
          (extras kw [''name'', ''materialized'']))"

definition SeedKind_init :: "kwargs \<Rightarrow> error + ModelKind" where
  "SeedKind_init kw =
     map_sum id (\<lambda>(n, p, b). SeedKind p b)
       (finish
          (both (field ''name'' (lookup kw ''name'' (Some (PName SEED)))
                   no_validator (core_literal SEED))
            (both (field ''path'' (lookup kw ''path'' None) parse_path core_str)
                  (field ''batch_size'' (lookup kw ''batch_size'' (Some (PInt 1000)))
                     parse_batch_size core_int)))
          (extras kw [''name'', ''path'', ''batch_size'']))"

datatype klass =
    ModelKind_cls
  | IncrementalByTimeRangeKind_cls
  | IncrementalByUniqueKeyKind_cls
  | ViewKind_cls
  | SeedKind_cls

fun construct :: "klass \<Rightarrow> kwargs \<Rightarrow> error + ModelKind" where
  "construct ModelKind_cls kw = ModelKind_init kw"
| "construct IncrementalByTimeRangeKind_cls kw = IncrementalByTimeRangeKind_init kw"
| "construct IncrementalByUniqueKeyKind_cls kw = IncrementalByUniqueKeyKind_init kw"
| "construct ViewKind_cls kw = ViewKind_init kw"
| "construct SeedKind_cls kw = SeedKind_init kw"

text \<open>The declared field names of a class (\<^verbatim>\<open>PydanticModel.all_fields\<close>).\<close>

fun all_fields :: "klass \<Rightarrow> string list" where
  "all_fields ModelKind_cls = [''name'']"
| "all_fields IncrementalByTimeRangeKind_cls = [''name'', ''batch_size'', ''lookback'', ''time_column'']"
| "all_fields IncrementalByUniqueKeyKind_cls = [''name'', ''batch_size'', ''lookback'', ''unique_key'']"
| "all_fields ViewKind_cls = [''name'', ''materialized'']"
| "all_fields SeedKind_cls = [''name'', ''path'', ''batch_size'']"

section \<open>The kind classifier\<close>

text \<open>The class that the tag of a node or of a mapping selects.\<close>

definition klass_of :: "string \<Rightarrow> klass" where
  "klass_of n =
     (if n = value_of INCREMENTAL_BY_TIME_RANGE then IncrementalByTimeRangeKind_cls
      else if n = value_of INCREMENTAL_BY_UNIQUE_KEY then IncrementalByUniqueKeyKind_cls
      else if n = value_of SEED then SeedKind_cls
      else if n = value_of VIEW then ViewKind_cls
      else ModelKind_cls)"

text \<open>The same choice on \<^verbatim>\<open>v.get("name")\<close> of a mapping; a member equals its value, and a
  value that is no string equals no tag.\<close>

definition klass_of_mapping :: "kwargs \<Rightarrow> klass" where
  "klass_of_mapping v =
     (case map_of v ''name'' of
        Some (PStr n) \<Rightarrow> klass_of n
      | Some (PName m) \<Rightarrow> klass_of (value_of m)
      | _ \<Rightarrow> ModelKind_cls)"

text \<open>\<^verbatim>\<open>{prop.name: prop.args.get("value") for prop in v.expressions}\<close>: a later entry with
  the same key replaces the value of the earlier one.\<close>

definition props_of :: "expr list \<Rightarrow> kwargs" where
  "props_of es = foldl (\<lambda>d prop. AList.update (expr_name prop) (expr_value prop) d) [] es"

definition quoted :: "string \<Rightarrow> string" where
  "quoted s = [CHR 0x27] @ s @ [CHR 0x27]"

text \<open>
  \<^verbatim>\<open>_model_kind_validator\<close>. The result is the kind, or \<open>None\<close> for \<^verbatim>\<open>None\<close>. In the last
  branch the \<^verbatim>\<open>try\<close> turns every \<^verbatim>\<open>ValueError\<close> (a validation error is one) into the
  \<^verbatim>\<open>ConfigError\<close>.
\<close>

fun model_kind_validator :: "pyval \<Rightarrow> error + ModelKind option" where
  "model_kind_validator PNone = Inr None"
| "model_kind_validator (PKind v) = Inr (Some v)"
| "model_kind_validator (PExp (ModelKindE n es)) =
     (let props = props_of es in
      if klass_of n \<noteq> ModelKind_cls then map_sum id Some (construct (klass_of n) props)
      else
        (case ModelKindName_of n of
           None \<Rightarrow> Inl (ValueError (InvalidEnumValue n))
         | Some m \<Rightarrow>
             map_sum id Some
               (construct ModelKind_cls (AList.update ''name'' (PName m) props))))"
| "model_kind_validator (PDict v) = map_sum id Some (construct (klass_of_mapping v) v)"
| "model_kind_validator v =
     (let n = upper (case v of PExp e \<Rightarrow> expr_name e | _ \<Rightarrow> py_str v) in
      case ModelKindName_of n of
        None \<Rightarrow> Inl (ConfigError (''Invalid model kind '' @ quoted n))
      | Some m \<Rightarrow>
          (case ModelKind_init [(''name'', PName m)] of
             Inr k \<Rightarrow> Inr (Some k)
           | Inl (ValueError _) \<Rightarrow> Inl (ConfigError (''Invalid model kind '' @ quoted n))
           | Inl (ValidationError _) \<Rightarrow> Inl (ConfigError (''Invalid model kind '' @ quoted n))
           | Inl e \<Rightarrow> Inl e))"

section \<open>Rendering back to a node\<close>

text \<open>
  Two functions of the expression library are parameters of the rendering: \<open>to_column\<close>
  is \<^verbatim>\<open>exp.to_column\<close>, which builds the column reference of a name, and \<open>format_time\<close> is
  \<^verbatim>\<open>format_time\<close> with the inverse time mapping of the dialect that \<^verbatim>\<open>to_expression\<close> was
  called with.
\<close>

record library =
  to_column :: "string \<Rightarrow> expr"
  format_time :: "string \<Rightarrow> string"

text \<open>\<^verbatim>\<open>Literal.string\<close> and \<^verbatim>\<open>Literal.number\<close> of the expression library.\<close>

definition Literal_string :: "string \<Rightarrow> expr" where
  "Literal_string s = Literal s True"

definition Literal_number :: "int \<Rightarrow> expr" where
  "Literal_number n = Literal (str_int n) False"

text \<open>\<^verbatim>\<open>TimeColumn.to_expression\<close>; an absent and an empty format are both false.\<close>

definition TimeColumn_to_expression :: "library \<Rightarrow> TimeColumn \<Rightarrow> expr" where
  "TimeColumn_to_expression lib self =
     (let col = to_column lib (column self) in
      case format self of
        None \<Rightarrow> col
      | Some f \<Rightarrow> if f = [] then col else Tuple [col, Literal_string (format_time lib f)])"

definition to_property :: "library \<Rightarrow> TimeColumn \<Rightarrow> expr" where
  "to_property lib self = Property (Inl ''time_column'') (Some (TimeColumn_to_expression lib self))"

text \<open>
  \<^verbatim>\<open>to_expression\<close>: the base class renders the tag alone; the time-range kind adds its
  time column, the seed kind its path and batch size. The other classes inherit the base
  method.
\<close>

fun to_expression :: "library \<Rightarrow> ModelKind \<Rightarrow> expr" where
  "to_expression lib (IncrementalByTimeRangeKind b l tc) =
     ModelKindE (upper (value_of (name (IncrementalByTimeRangeKind b l tc)))) [to_property lib tc]"
| "to_expression lib (SeedKind p b) =
     ModelKindE (upper (value_of (name (SeedKind p b))))
       [Property (Inr (Var ''path'')) (Some (Literal_string p)),
        Property (Inr (Var ''batch_size'')) (Some (Literal_number b))]"
| "to_expression lib self = ModelKindE (upper (value_of (name self))) []"

section \<open>Notions used in the statements\<close>


text \<open>\<^verbatim>\<open>isinstance(v, exp.Tuple)\<close>.\<close>

fun is_tuple :: "expr \<Rightarrow> bool" where
  "is_tuple (Tuple _) = True"
| "is_tuple _ = False"

text \<open>A column reference whose name is the given text.\<close>

fun column_named :: "expr \<Rightarrow> string \<Rightarrow> bool" where
  "column_named (Column t _) c = (text_of t = c)"
| "column_named _ c = False"

text \<open>
  An instance of the library parameters: the name becomes an unqualified column reference,
  and the format is left as it is (the mapping of the default dialect is empty).
\<close>

definition plain_library :: library where
  "plain_library = \<lparr>to_column = (\<lambda>c. Column (Identifier c) []), format_time = (\<lambda>f. f)\<rparr>"

text \<open>
  The kinds all of whose fields \<open>to_expression\<close> renders in a form that the classifier reads
  back: a bare kind whose tag selects no subclass, a view that is not materialized, a seed
  with a positive batch size, and a time-range kind without batch size and lookback whose
  column reference keeps the column's name and whose format, when there is one, is
  non-empty and unchanged by the dialect's rewriting. The unique-key kind renders no field.
\<close>

fun rendered_in_full :: "library \<Rightarrow> ModelKind \<Rightarrow> bool" where
  "rendered_in_full lib (ModelKind n) = (n \<in> set [FULL, EMBEDDED, EXTERNAL])"
| "rendered_in_full lib (ViewKind m) = (\<not> m)"
| "rendered_in_full lib (SeedKind p b) = (0 < b)"
| "rendered_in_full lib (IncrementalByTimeRangeKind b l tc) =
     (b = None \<and> l = None \<and> column tc \<noteq> [] \<and> column_named (to_column lib (column tc)) (column tc)
      \<and> (case format tc of None \<Rightarrow> True | Some f \<Rightarrow> f \<noteq> [] \<and> format_time lib f = f))"
| "rendered_in_full lib (IncrementalByUniqueKeyKind b l ks) = False"

section \<open>Facts about texts and integers\<close>

declare dec.simps [simp del]

lemma digit_val_char: "(k::nat) < 10 \<Longrightarrow> digit_val (char_of (48 + k)) = k"
  by (simp add: digit_val_def)

lemma is_digit_char: "(k::nat) < 10 \<Longrightarrow> is_digit (char_of (48 + k))"
  by (simp add: is_digit_def Let_def)

lemma dec_digits: "list_all is_digit (dec n)"
proof (induction n rule: dec.induct)
  case (1 n)
  show ?case
  proof (cases "n < 10")
    case True
    then show ?thesis by (subst dec.simps) (simp add: is_digit_char)
  next
    case False
    with 1 show ?thesis by (subst dec.simps) (simp add: is_digit_char)
  qed
qed

lemma dec_nonempty: "dec n \<noteq> []"
  by (subst dec.simps) simp

lemma digits_val_all:
  "list_all is_digit xs \<Longrightarrow> digits_val acc xs = Some (foldl (\<lambda>a c. 10 * a + digit_val c) acc xs)"
  by (induction xs arbitrary: acc) auto

lemma foldl_dec: "foldl (\<lambda>a c. 10 * a + digit_val c) 0 (dec n) = n"
proof (induction n rule: dec.induct)
  case (1 n)
  show ?case
  proof (cases "n < 10")
    case True
    then show ?thesis by (subst dec.simps) (simp add: digit_val_char)
  next
    case False
    with 1 show ?thesis by (subst dec.simps) (simp add: digit_val_char)
  qed
qed

lemma digit_not_space: "is_digit c \<Longrightarrow> \<not> is_space c"
  by (auto simp: is_digit_def is_space_def Let_def)

lemma strip_digits: "list_all is_digit xs \<Longrightarrow> strip xs = xs"
proof (cases xs rule: rev_cases)
  case Nil
  then show ?thesis by (simp add: strip_def)
next
  case (snoc ys y)
  assume a: "list_all is_digit xs"
  have h: "dropWhile is_space xs = xs"
    using a by (cases xs) (auto simp: digit_not_space)
  have l: "\<not> is_space y" using a snoc by (simp add: digit_not_space)
  show ?thesis unfolding strip_def h using snoc l by simp
qed

lemma py_digits_dec: "py_digits (dec n) = Some n"
proof -
  obtain c cs where e: "dec n = c # cs" using dec_nonempty by (cases "dec n") auto
  have d: "list_all is_digit (dec n)" by (rule dec_digits)
  then have "is_digit c" using e by simp
  then show ?thesis
    using e digits_val_all [OF d, of 0] foldl_dec [of n] by (simp add: py_digits_def)
qed

lemma digit_not_sign: "is_digit c \<Longrightarrow> c \<noteq> CHR ''-'' \<and> c \<noteq> CHR ''+''"
  by (auto simp: is_digit_def Let_def)

lemma digit_ascii: "is_digit c \<Longrightarrow> (of_char c :: nat) < 128"
  by (simp add: is_digit_def Let_def)

lemma digits_ascii: "list_all is_digit xs \<Longrightarrow> ascii xs"
  by (induction xs) (simp_all add: ascii_def digit_ascii)

lemma parse_int_digits:
  assumes "list_all is_digit (c # cs)"
  shows "parse_int (c # cs) = map_option int (py_digits (c # cs))"
proof -
  have c: "is_digit c" using assms by simp
  have "ascii_int (c # cs) = map_option int (py_digits (c # cs))"
    using digit_not_sign [OF c] by (simp add: ascii_int_def strip_digits [OF assms])
  then show ?thesis using digits_ascii [OF assms] by (simp add: parse_int_def)
qed

lemma parse_int_dec: "parse_int (dec n) = Some (int n)"
proof -
  obtain c cs where e: "dec n = c # cs" using dec_nonempty by (cases "dec n") auto
  have "list_all is_digit (c # cs)" using dec_digits [of n] e by simp
  then have "parse_int (c # cs) = map_option int (py_digits (c # cs))"
    by (rule parse_int_digits)
  then show ?thesis using py_digits_dec [of n] e by simp
qed

lemma parse_int_str_int: "0 \<le> n \<Longrightarrow> parse_int (str_int n) = Some n"
  using parse_int_dec [of "nat n"] by (simp add: str_int_def)

lemma strip_ends:
  assumes "xs \<noteq> []" and "\<not> is_space (hd xs)" and "\<not> is_space (last xs)"
  shows "strip xs = xs"
proof -
  have h: "dropWhile is_space xs = xs" using assms by (cases xs) auto
  obtain ys y where e: "xs = ys @ [y]" using assms(1) by (cases xs rule: rev_cases) auto
  show ?thesis unfolding strip_def h using e assms(3) by simp
qed

lemma parse_int_negative: "parse_int (CHR ''-'' # dec m) = Some (- int m)"
proof -
  have d: "list_all is_digit (dec m)" by (rule dec_digits)
  have n: "dec m \<noteq> []" by (rule dec_nonempty)
  have "is_digit (last (dec m))" using d n by (simp add: list_all_iff)
  then have l: "\<not> is_space (last (CHR ''-'' # dec m))" using n by (simp add: digit_not_space)
  have f: "\<not> is_space (hd (CHR ''-'' # dec m))" by (simp add: is_space_def)
  have a: "ascii (CHR ''-'' # dec m)" using digits_ascii [OF d] by (simp add: ascii_def)
  have "strip (CHR ''-'' # dec m) = CHR ''-'' # dec m"
    using strip_ends [OF _ f l] by simp
  then show ?thesis using a by (simp add: parse_int_def ascii_int_def py_digits_dec)
qed

lemma parse_int_str_int_any: "parse_int (str_int n) = Some n"
proof (cases "n < 0")
  case True
  then show ?thesis using parse_int_negative [of "nat (- n)"] by (simp add: str_int_def)
next
  case False
  then show ?thesis using parse_int_str_int [of n] by simp
qed



section \<open>Facts about the record base\<close>

lemma lookup_simps:
  "lookup [] k d = d"
  "lookup ((k', v) # kw) k d = (if k' = k then Some v else lookup kw k d)"
  by (simp_all add: lookup_def)

lemma extras_Nil: "extras [] fs = []"
  by (simp add: extras_def)

lemma extras_Cons:
  "extras ((k, v) # kw) fs = (if k \<in> set fs then extras kw fs else ExtraForbidden k # extras kw fs)"
  by (simp add: extras_def)

section \<open>Derived predicates\<close>

text \<open>
  Claim C9. For every tag, \<open>is_symbolic\<close> holds exactly for EMBEDDED and EXTERNAL,
  \<open>is_materialized\<close> exactly for INCREMENTAL_BY_TIME_RANGE, INCREMENTAL_BY_UNIQUE_KEY, FULL
  and SEED, and \<open>only_latest\<close> exactly for VIEW and FULL. A kind evaluates the predicates on
  its \<open>model_kind_name\<close>, which is the tag its class fixes (the stored tag for a bare kind),
  so it exposes the values of that tag.
\<close>

theorem derived_predicates:
  "(is_symbolic n \<longleftrightarrow> n = EMBEDDED \<or> n = EXTERNAL)
   \<and> (is_materialized n \<longleftrightarrow>
        n = INCREMENTAL_BY_TIME_RANGE \<or> n = INCREMENTAL_BY_UNIQUE_KEY \<or> n = FULL \<or> n = SEED)
   \<and> (only_latest n \<longleftrightarrow> n = VIEW \<or> n = FULL)
   \<and> model_kind_name (ModelKind n) = n
   \<and> model_kind_name (IncrementalByTimeRangeKind b l tc) = INCREMENTAL_BY_TIME_RANGE
   \<and> model_kind_name (IncrementalByUniqueKeyKind b l ks) = INCREMENTAL_BY_UNIQUE_KEY
   \<and> model_kind_name (ViewKind m) = VIEW
   \<and> model_kind_name (SeedKind p s) = SEED"
  by (cases n)
     (simp_all add: is_symbolic_def is_materialized_def only_latest_def is_view_def is_full_def
        model_kind_name_def)

section \<open>The classifier on typed and absent input\<close>

text \<open>
  Claim C5. A value that already is a kind is returned as it is, whatever its fields: no
  constructor and no validator runs. For \<^verbatim>\<open>None\<close> the result is absent, not an error.
\<close>

theorem classifier_identity:
  "model_kind_validator (PKind v) = Inr (Some v) \<and> model_kind_validator PNone = Inr None"
  by simp

section \<open>Unique keys\<close>

lemma all_str: "list_all is_str (map PStr ks)"
  by (induction ks) simp_all

lemma map_py_str: "map (str_value \<circ> PStr) ks = ks"
  by (induction ks) simp_all

lemma map_this_Identifier: "map (expr_this \<circ> Identifier) ks = map PStr ks"
  by (induction ks) simp_all

lemma map_item_str: "map (unique_key_item \<circ> PStr) ks = map PStr ks"
  by (induction ks) simp_all

lemma map_item_Identifier: "map (unique_key_item \<circ> (\<lambda>k. PExp (Identifier k))) ks = map PStr ks"
  by (induction ks) simp_all

lemma unique_key_only:
  "parse_unique_key v = Inr (PList (map PStr ks)) \<Longrightarrow>
   IncrementalByUniqueKeyKind_init [(''unique_key'', v)] = Inr (IncrementalByUniqueKeyKind None None ks)"
  by (simp add: IncrementalByUniqueKeyKind_init_def lookup_simps extras_Cons extras_Nil field_def
      no_validator_def int_validator_def kind_validator_def all_str map_py_str)

text \<open>
  Claim C8. A single identifier node, a tuple node of identifiers and a plain sequence of
  strings (or of identifier nodes) that name the same keys in the same order are
  normalized by \<open>parse_unique_key\<close> to the same sequence of strings, and the unique-key kind
  built from each of them holds that sequence.
\<close>

theorem unique_key_normalization:
  "parse_unique_key (PExp (Identifier k)) = Inr (PList [PStr k])
   \<and> parse_unique_key (PExp (Tuple (map Identifier ks))) = Inr (PList (map PStr ks))
   \<and> parse_unique_key (PList (map PStr ks)) = Inr (PList (map PStr ks))
   \<and> parse_unique_key (PList (map (\<lambda>k. PExp (Identifier k)) ks)) = Inr (PList (map PStr ks))
   \<and> IncrementalByUniqueKeyKind_init [(''unique_key'', PExp (Identifier k))]
       = Inr (IncrementalByUniqueKeyKind None None [k])
   \<and> IncrementalByUniqueKeyKind_init [(''unique_key'', PExp (Tuple (map Identifier ks)))]
       = Inr (IncrementalByUniqueKeyKind None None ks)
   \<and> IncrementalByUniqueKeyKind_init [(''unique_key'', PList (map PStr ks))]
       = Inr (IncrementalByUniqueKeyKind None None ks)"
proof -
  have a: "parse_unique_key (PExp (Identifier k)) = Inr (PList (map PStr [k]))" by simp
  have b: "parse_unique_key (PExp (Tuple (map Identifier ks))) = Inr (PList (map PStr ks))"
    by (simp add: map_this_Identifier)
  have c: "parse_unique_key (PList (map PStr ks)) = Inr (PList (map PStr ks))"
    by (simp add: map_item_str)
  have d: "parse_unique_key (PList (map (\<lambda>k. PExp (Identifier k)) ks)) = Inr (PList (map PStr ks))"
    by (simp add: map_item_Identifier)
  show ?thesis
    using a b c d unique_key_only [OF a] unique_key_only [OF b] unique_key_only [OF c]
    by simp
qed

section \<open>Seed bounds\<close>

lemma parse_batch_size_int:
  "parse_batch_size (PInt n) =
     (if n \<le> 0 then Inl (ValueError (Message ''Seed batch size must be a positive integer''))
      else Inr (PInt n))"
  by (simp add: parse_batch_size_def)

lemma parse_batch_size_number:
  "parse_batch_size (PExp (Literal_number n)) = parse_batch_size (PInt n)"
  by (simp add: parse_batch_size_def Literal_number_def is_int_def parse_int_str_int_any)

lemma SeedKind_init_path_batch:
  "parse_path p = Inr (PStr s) \<Longrightarrow> parse_batch_size b = parse_batch_size (PInt n) \<Longrightarrow>
   SeedKind_init [(''path'', p), (''batch_size'', b)] =
     (if n \<le> 0 then
        Inl (ValidationError
          [ValueErrorIn ''batch_size'' (Message ''Seed batch size must be a positive integer'')])
      else Inr (SeedKind s n))"
  by (simp add: SeedKind_init_def lookup_simps extras_Cons extras_Nil field_def no_validator_def
      parse_batch_size_int)

text \<open>
  Claim C7. Constructing a seed kind with a batch size of zero or below (0 and -5 among
  them) fails, and the failure carries "Seed batch size must be a positive integer";
  every positive batch size is accepted, given as a raw integer or as a number literal,
  and an omitted batch size is 1000.
\<close>

theorem seed_bounds:
  "SeedKind_init [(''path'', PStr p), (''batch_size'', PInt n)] =
     (if n \<le> 0 then
        Inl (ValidationError
          [ValueErrorIn ''batch_size'' (Message ''Seed batch size must be a positive integer'')])
      else Inr (SeedKind p n))
   \<and> SeedKind_init [(''path'', PStr p), (''batch_size'', PExp (Literal_number n))] =
       SeedKind_init [(''path'', PStr p), (''batch_size'', PInt n)]
   \<and> SeedKind_init [(''path'', PStr p)] = Inr (SeedKind p 1000)"
proof -
  have d: "SeedKind_init [(''path'', PStr p)] = Inr (SeedKind p 1000)"
    by (simp add: SeedKind_init_def lookup_simps extras_Cons extras_Nil field_def no_validator_def
        parse_batch_size_int)
  show ?thesis
    using SeedKind_init_path_batch [of "PStr p" p "PInt n" n]
      SeedKind_init_path_batch [of "PStr p" p "PExp (Literal_number n)" n]
      parse_batch_size_number [of n] d
    by simp
qed

theorem seed_bounds_witness:
  "SeedKind_init [(''path'', PStr ''seed.csv''), (''batch_size'', PInt 0)] =
     Inl (ValidationError
       [ValueErrorIn ''batch_size'' (Message ''Seed batch size must be a positive integer'')])
   \<and> SeedKind_init [(''path'', PStr ''seed.csv''), (''batch_size'', PInt (- 5))] =
     Inl (ValidationError
       [ValueErrorIn ''batch_size'' (Message ''Seed batch size must be a positive integer'')])
   \<and> SeedKind_init [(''path'', PStr ''seed.csv''), (''batch_size'', PInt 1)] =
     Inr (SeedKind ''seed.csv'' 1)
   \<and> SeedKind_init [(''path'', PStr ''seed.csv'')] = Inr (SeedKind ''seed.csv'' 1000)"
  using seed_bounds [of "''seed.csv''" 0] seed_bounds [of "''seed.csv''" "- 5"]
    seed_bounds [of "''seed.csv''" 1]
  by simp

section \<open>Time column shapes\<close>

lemma TimeColumn_init_column:
  "TimeColumn_init [(''column'', PStr c)] =
     (if c = [] then Inl (ConfigError ''Time Column cannot be empty.'') else Inr (TimeColumn c None))"
  by (simp add: TimeColumn_init_def lookup_simps extras_Cons extras_Nil field_def no_validator_def
      column_validator_def)

lemma TimeColumn_init_column_format:
  "TimeColumn_init [(''column'', PStr c), (''format'', PStr f)] =
     (if c = [] then Inl (ConfigError ''Time Column cannot be empty.'')
      else Inr (TimeColumn c (Some f)))"
  by (simp add: TimeColumn_init_def lookup_simps extras_Cons extras_Nil field_def no_validator_def
      column_validator_def)

lemma TimeColumn_init_empty:
  "TimeColumn_init ((''column'', PStr []) # kw) = Inl (ConfigError ''Time Column cannot be empty.'')"
  by (simp add: TimeColumn_init_def lookup_simps field_def column_validator_def)

text \<open>
  Claim C6. A plain string, a bare node that is no tuple (an identifier, a column) and a
  tuple node of one element give the same result when the text of the column is the same:
  the time column of that name without a format. A tuple node of column and format gives
  the time column with both. Whenever the text of the column is empty (the string, the
  node's name, or the name of a tuple's first element) the result is the configuration
  error "Time Column cannot be empty."
\<close>

theorem time_column_shapes:
  "time_column_validator (PStr c) =
     (if c = [] then Inl (ConfigError ''Time Column cannot be empty.'')
      else Inr (PTimeColumn (TimeColumn c None)))
   \<and> (\<not> is_tuple e \<longrightarrow> time_column_validator (PExp e) = time_column_validator (PStr (expr_name e)))
   \<and> time_column_validator (PExp (Tuple [e])) = time_column_validator (PStr (expr_name e))
   \<and> time_column_validator (PExp (Tuple [e, g])) =
       (if expr_name e = [] then Inl (ConfigError ''Time Column cannot be empty.'')
        else Inr (PTimeColumn (TimeColumn (expr_name e) (Some (expr_name g)))))
   \<and> (expr_name e = [] \<longrightarrow>
        time_column_validator (PExp (Tuple (e # es))) = Inl (ConfigError ''Time Column cannot be empty.''))"
proof -
  have a: "time_column_validator (PExp (Tuple (e # es))) = Inl (ConfigError ''Time Column cannot be empty.'')"
    if "expr_name e = []"
    using that by (cases es) (simp_all add: TimeColumn_init_empty)
  have b: "time_column_validator (PExp e) = time_column_validator (PStr (expr_name e))"
    if "\<not> is_tuple e"
    using that by (cases e) simp_all
  show ?thesis using a b
    by (simp add: TimeColumn_init_column TimeColumn_init_column_format)
qed

theorem time_column_shapes_witness:
  "time_column_validator (PStr ''ds'') = Inr (PTimeColumn (TimeColumn ''ds'' None))
   \<and> time_column_validator (PExp (Identifier ''ds'')) = Inr (PTimeColumn (TimeColumn ''ds'' None))
   \<and> time_column_validator (PExp (Tuple [Identifier ''ds''])) = Inr (PTimeColumn (TimeColumn ''ds'' None))
   \<and> time_column_validator (PExp (Tuple [Identifier ''ds'', Literal ''%Y-%m-%d'' True])) =
       Inr (PTimeColumn (TimeColumn ''ds'' (Some ''%Y-%m-%d'')))
   \<and> time_column_validator (PExp (Tuple [Identifier [], Literal ''%Y-%m-%d'' True])) =
       Inl (ConfigError ''Time Column cannot be empty.'')"
  using time_column_shapes [of "''ds''" "Identifier ''ds''" "Literal ''%Y-%m-%d'' True" "[]"]
    time_column_shapes [of "''ds''" "Identifier []" "Literal ''%Y-%m-%d'' True" "[Literal ''%Y-%m-%d'' True]"]
  by simp

section \<open>Keys that are no field\<close>

lemma extras_nonempty: "(k, v) \<in> set kw \<Longrightarrow> k \<notin> set fs \<Longrightarrow> extras kw fs \<noteq> []"
  by (auto simp: extras_def filter_empty_conv)

lemma finish_extras: "ex \<noteq> [] \<Longrightarrow> isl (finish r ex)"
  by (cases r) simp_all

lemma isl_after: "isl r \<Longrightarrow> isl (after r)"
  by (cases r rule: after.cases) simp_all

lemma isl_map_sum: "isl r \<Longrightarrow> isl (map_sum f g r)"
  by (cases r) simp_all

lemma isl_case: "isl r \<Longrightarrow> isl (case r of Inl e \<Rightarrow> Inl e | Inr x \<Rightarrow> f x)"
  by (cases r) simp_all

lemma construct_extra:
  assumes "(k, v) \<in> set kw" and "k \<notin> set (all_fields c)"
  shows "isl (construct c kw)"
proof (cases c)
  case ModelKind_cls
  then show ?thesis using assms
    by (simp add: ModelKind_init_def isl_map_sum finish_extras extras_nonempty)
next
  case IncrementalByTimeRangeKind_cls
  then have "extras kw [''name'', ''batch_size'', ''lookback'', ''time_column''] \<noteq> []"
    using assms extras_nonempty [of k v kw] by simp
  then show ?thesis using IncrementalByTimeRangeKind_cls
    by (simp add: IncrementalByTimeRangeKind_init_def isl_after isl_case finish_extras)
next
  case IncrementalByUniqueKeyKind_cls
  then have "extras kw [''name'', ''batch_size'', ''lookback'', ''unique_key''] \<noteq> []"
    using assms extras_nonempty [of k v kw] by simp
  then show ?thesis using IncrementalByUniqueKeyKind_cls
    by (simp add: IncrementalByUniqueKeyKind_init_def isl_after isl_case finish_extras)
next
  case ViewKind_cls
  then show ?thesis using assms
    by (simp add: ViewKind_init_def isl_map_sum finish_extras extras_nonempty)
next
  case SeedKind_cls
  then show ?thesis using assms
    by (simp add: SeedKind_init_def isl_map_sum finish_extras extras_nonempty)
qed

text \<open>
  Claim C10. Constructing any variant with a key that is not among the declared fields of
  its class fails, whatever the other entries are, and so does classifying a mapping with
  such a key: an unknown key is never dropped silently.
\<close>

theorem extra_fields_forbidden:
  assumes "(k, v) \<in> set kw"
  shows "(k \<notin> set (all_fields c) \<longrightarrow> isl (construct c kw))
    \<and> (k \<notin> set (all_fields (klass_of_mapping kw)) \<longrightarrow> isl (model_kind_validator (PDict kw)))"
  using assms construct_extra [of k v kw] by (simp add: isl_map_sum)

theorem extra_fields_forbidden_witness:
  "construct ViewKind_cls [(''name'', PStr ''VIEW''), (''materialised'', PBool True)] =
     Inl (ValidationError [ExtraForbidden ''materialised''])
   \<and> isl (model_kind_validator (PDict [(''name'', PStr ''VIEW''), (''materialised'', PBool True)]))"
proof -
  have a: "(''materialised'', PBool True) \<in> set [(''name'', PStr ''VIEW''), (''materialised'', PBool True)]"
    by simp
  have b: "klass_of_mapping [(''name'', PStr ''VIEW''), (''materialised'', PBool True)] = ViewKind_cls"
    by (simp add: klass_of_mapping_def klass_of_def)
  have c: "construct ViewKind_cls [(''name'', PStr ''VIEW''), (''materialised'', PBool True)] =
     Inl (ValidationError [ExtraForbidden ''materialised''])"
    by (simp add: ViewKind_init_def lookup_simps extras_Cons extras_Nil field_def no_validator_def)
  show ?thesis
    using extra_fields_forbidden [OF a, of ViewKind_cls] b c by simp
qed

section \<open>Classifying a tag text\<close>



text \<open>
  A \<^verbatim>\<open>ModelKindName\<close> member passed as the value is no kind, node or mapping, so the last
  branch takes \<^verbatim>\<open>str(v)\<close>, which is the member's printed form and resolves to no tag.
\<close>

lemma classify_member:
  "model_kind_validator (PName m) =
     Inl (ConfigError (''Invalid model kind '' @ quoted (upper (''ModelKindName.'' @ value_of m))))"
proof -
  have "ModelKindName_of (upper (''ModelKindName.'' @ value_of m)) = None"
    by (cases m; hypsubst_thin; code_simp)
  then show ?thesis by simp
qed




section \<open>Batch size and lookback\<close>

lemma int_validator_None: "int_validator f PNone = Inr PNone"
  by (simp add: int_validator_def)

lemma int_validator_int:
  "int_validator f (PInt n) =
     (if n < 0 then
        Inl (ConfigError (''Invalid value '' @ str_int n @ '' for '' @ f
               @ ''. The value should be greater than 0''))
      else Inr (PInt n))"
  by (simp add: int_validator_def)


lemma time_range_init_ints:
  assumes "c \<noteq> []" and "0 \<le> b" and "0 \<le> l"
  shows "IncrementalByTimeRangeKind_init
           [(''time_column'', PStr c), (''batch_size'', PInt b), (''lookback'', PInt l)] =
         (if b \<noteq> 0 \<and> l \<noteq> 0 \<and> b < l then
            Inl (ValidationError [ValueErrorIn [] (Message ''batch_size cannot be less than lookback'')])
          else Inr (IncrementalByTimeRangeKind (Some b) (Some l) (TimeColumn c None)))"
  using assms
  by (simp add: IncrementalByTimeRangeKind_init_def lookup_simps extras_Cons extras_Nil field_def
      no_validator_def int_validator_int TimeColumn_init_column kind_validator_def)

lemma unique_key_init_ints:
  assumes "0 \<le> b" and "0 \<le> l"
  shows "IncrementalByUniqueKeyKind_init
           [(''unique_key'', PList (map PStr ks)), (''batch_size'', PInt b), (''lookback'', PInt l)] =
         (if b \<noteq> 0 \<and> l \<noteq> 0 \<and> b < l then
            Inl (ValidationError [ValueErrorIn [] (Message ''batch_size cannot be less than lookback'')])
          else Inr (IncrementalByUniqueKeyKind (Some b) (Some l) ks))"
  using assms
  by (simp add: IncrementalByUniqueKeyKind_init_def lookup_simps extras_Cons extras_Nil field_def
      no_validator_def int_validator_int kind_validator_def all_str map_py_str map_item_str)

text \<open>
  Claim C2, at the input where the code departs from it: with a batch size of 0 and a
  lookback of 1, both non-negative and the batch size below the lookback, either
  incremental kind is constructed. The check of \<open>kind_validator\<close> tests the truth value of
  the batch size, and zero is false. (For a positive batch size, \<open>time_range_init_ints\<close> and
  \<open>unique_key_init_ints\<close> give the failure exactly when the batch size is below the
  lookback.)
\<close>

theorem incremental_zero_batch_size:
  "IncrementalByTimeRangeKind_init
     [(''time_column'', PStr ''ds''), (''batch_size'', PInt 0), (''lookback'', PInt 1)] =
     Inr (IncrementalByTimeRangeKind (Some 0) (Some 1) (TimeColumn ''ds'' None))
   \<and> IncrementalByUniqueKeyKind_init
     [(''unique_key'', PList [PStr ''id'']), (''batch_size'', PInt 0), (''lookback'', PInt 1)] =
     Inr (IncrementalByUniqueKeyKind (Some 0) (Some 1) [''id''])"
  using time_range_init_ints [of "''ds''" 0 1] unique_key_init_ints [of 0 1 "[''id'']"]
  by simp

section \<open>The kinds of error\<close>












section \<open>Round trip\<close>

lemma upper_tags:
  "upper ''INCREMENTAL_BY_TIME_RANGE'' = ''INCREMENTAL_BY_TIME_RANGE''"
  "upper ''INCREMENTAL_BY_UNIQUE_KEY'' = ''INCREMENTAL_BY_UNIQUE_KEY''"
  "upper ''FULL'' = ''FULL''"
  "upper ''VIEW'' = ''VIEW''"
  "upper ''EMBEDDED'' = ''EMBEDDED''"
  "upper ''SEED'' = ''SEED''"
  "upper ''EXTERNAL'' = ''EXTERNAL''"
  by code_simp+

lemma round_trip_bare:
  assumes "n \<in> set [FULL, EMBEDDED, EXTERNAL]"
  shows "model_kind_validator (PExp (to_expression lib (ModelKind n))) = Inr (Some (ModelKind n))"
proof -
  from assms consider "n = FULL" | "n = EMBEDDED" | "n = EXTERNAL" by auto
  then show ?thesis
    by cases
      (simp_all add: upper_tags klass_of_def props_of_def ModelKindName_of_def members_def
        ModelKind_init_def lookup_simps extras_Cons extras_Nil field_def no_validator_def)
qed

lemma round_trip_view:
  "model_kind_validator (PExp (to_expression lib (ViewKind False))) = Inr (Some (ViewKind False))"
  by (simp add: upper_tags klass_of_def props_of_def ViewKind_init_def lookup_simps
      extras_Nil field_def no_validator_def)

lemma round_trip_seed:
  assumes "0 < b"
  shows "model_kind_validator (PExp (to_expression lib (SeedKind p b))) = Inr (Some (SeedKind p b))"
proof -
  have "SeedKind_init [(''path'', PExp (Literal_string p)), (''batch_size'', PExp (Literal_number b))]
      = Inr (SeedKind p b)"
    using SeedKind_init_path_batch [of "PExp (Literal_string p)" p "PExp (Literal_number b)" b]
      parse_batch_size_number [of b] assms
    by (simp add: Literal_string_def)
  then show ?thesis
    by (simp add: upper_tags klass_of_def props_of_def)
qed

lemma time_range_init_column:
  assumes "time_column_validator e = Inr (PTimeColumn tc)"
  shows "IncrementalByTimeRangeKind_init [(''time_column'', e)] =
     Inr (IncrementalByTimeRangeKind None None tc)"
  using assms
  by (simp add: IncrementalByTimeRangeKind_init_def lookup_simps extras_Cons extras_Nil field_def
      no_validator_def int_validator_None kind_validator_def)

lemma round_trip_time_column:
  assumes "c \<noteq> []" and "column_named (to_column lib c) c"
    and "case f of None \<Rightarrow> True | Some g \<Rightarrow> g \<noteq> [] \<and> format_time lib g = g"
  shows "time_column_validator (PExp (TimeColumn_to_expression lib (TimeColumn c f)))
     = Inr (PTimeColumn (TimeColumn c f))"
proof -
  obtain t qs where col: "to_column lib c = Column t qs" and t: "text_of t = c"
    using assms(2) by (cases "to_column lib c") auto
  show ?thesis
  proof (cases f)
    case None
    then show ?thesis using col t assms(1)
      by (simp add: TimeColumn_to_expression_def TimeColumn_init_column)
  next
    case (Some g)
    then show ?thesis using col t assms(1,3)
      by (simp add: TimeColumn_to_expression_def Literal_string_def TimeColumn_init_column_format)
  qed
qed

lemma round_trip_time_range:
  assumes "rendered_in_full lib (IncrementalByTimeRangeKind b l tc)"
  shows "model_kind_validator (PExp (to_expression lib (IncrementalByTimeRangeKind b l tc)))
     = Inr (Some (IncrementalByTimeRangeKind b l tc))"
proof -
  obtain c f where tc: "tc = TimeColumn c f" by (cases tc)
  have bl: "b = None" "l = None" using assms by simp_all
  have "time_column_validator (PExp (TimeColumn_to_expression lib (TimeColumn c f)))
     = Inr (PTimeColumn (TimeColumn c f))"
    using assms tc by (intro round_trip_time_column) simp_all
  then have "IncrementalByTimeRangeKind_init [(''time_column'', PExp (TimeColumn_to_expression lib tc))]
     = Inr (IncrementalByTimeRangeKind None None tc)"
    using tc by (simp add: time_range_init_column)
  then show ?thesis
    using bl by (simp add: upper_tags klass_of_def props_of_def to_property_def)
qed

text \<open>
  Claim C1, as amended. Classifying the node that \<open>to_expression\<close> renders gives the kind
  back, with the same tag and fields, for every kind that is rendered in full: a bare kind
  tagged FULL, EMBEDDED or EXTERNAL, a view that is not materialized, every seed kind with
  its positive batch size, and a time-range kind without batch size and lookback whose
  column reference keeps the column's name and whose format, if any, is non-empty and left
  unchanged by the dialect's rewriting.
\<close>

theorem round_trip:
  assumes "rendered_in_full lib v"
  shows "model_kind_validator (PExp (to_expression lib v)) = Inr (Some v)"
proof (cases v)
  case (ModelKind n)
  then show ?thesis using assms round_trip_bare [of n lib] by simp
next
  case (IncrementalByTimeRangeKind b l tc)
  then show ?thesis using assms round_trip_time_range [of lib b l tc] by simp
next
  case (IncrementalByUniqueKeyKind b l ks)
  then show ?thesis using assms by simp
next
  case (ViewKind m)
  then show ?thesis using assms round_trip_view [of lib] by simp
next
  case (SeedKind p b)
  then show ?thesis using assms round_trip_seed [of b lib p] by simp
qed

theorem round_trip_witness:
  "model_kind_validator (PExp (to_expression plain_library (ModelKind FULL))) = Inr (Some (ModelKind FULL))
   \<and> model_kind_validator (PExp (to_expression plain_library (ViewKind False))) = Inr (Some (ViewKind False))
   \<and> model_kind_validator (PExp (to_expression plain_library (SeedKind ''seed.csv'' 500)))
       = Inr (Some (SeedKind ''seed.csv'' 500))
   \<and> model_kind_validator (PExp (to_expression plain_library
         (IncrementalByTimeRangeKind None None (TimeColumn ''ds'' (Some ''%Y-%m-%d'')))))
       = Inr (Some (IncrementalByTimeRangeKind None None (TimeColumn ''ds'' (Some ''%Y-%m-%d''))))"
proof -
  have a: "rendered_in_full plain_library (ModelKind FULL)" by simp
  have b: "rendered_in_full plain_library (ViewKind False)" by simp
  have c: "rendered_in_full plain_library (SeedKind ''seed.csv'' 500)" by simp
  have d: "rendered_in_full plain_library
     (IncrementalByTimeRangeKind None None (TimeColumn ''ds'' (Some ''%Y-%m-%d'')))"
    by (simp add: plain_library_def)
  show ?thesis
    using round_trip [OF a] round_trip [OF b] round_trip [OF c] round_trip [OF d] by simp
qed

text \<open>
  The claim as stated fails for kinds that the constructors and the classifier produce: a
  materialized view comes back not materialized, a unique-key kind is rendered without its
  key and cannot be classified, the bare SEED kind that the classifier gives for the text
  "SEED" is rendered as a seed node without a path, and a time-range kind loses its batch
  size.
\<close>

theorem round_trip_counterexample:
  "ViewKind_init [(''materialized'', PBool True)] = Inr (ViewKind True)
   \<and> model_kind_validator (PExp (to_expression plain_library (ViewKind True))) = Inr (Some (ViewKind False))
   \<and> IncrementalByUniqueKeyKind_init [(''unique_key'', PList [PStr ''id''])]
       = Inr (IncrementalByUniqueKeyKind None None [''id''])
   \<and> model_kind_validator (PExp (to_expression plain_library (IncrementalByUniqueKeyKind None None [''id''])))
       = Inl (ValidationError [Missing ''unique_key''])
   \<and> model_kind_validator (PStr ''SEED'') = Inr (Some (ModelKind SEED))
   \<and> model_kind_validator (PExp (to_expression plain_library (ModelKind SEED)))
       = Inl (ValidationError [Missing ''path''])
   \<and> IncrementalByTimeRangeKind_init [(''time_column'', PStr ''ds''), (''batch_size'', PInt 7)]
       = Inr (IncrementalByTimeRangeKind (Some 7) None (TimeColumn ''ds'' None))
   \<and> model_kind_validator (PExp (to_expression plain_library
         (IncrementalByTimeRangeKind (Some 7) None (TimeColumn ''ds'' None))))
       = Inr (Some (IncrementalByTimeRangeKind None None (TimeColumn ''ds'' None)))"
  by code_simp

end
